theory Spec2Isabelle
  imports Complex_Main "HOL-Library.Sublist"
begin

section \<open>Python strings and the runtime's character tables\<close>

text \<open>
  A Python \<open>str\<close> is a sequence of Unicode code points, and \<open>len\<close> counts code
  points: a string is a list of naturals here. The character classes the code uses
  (\<open>str.isspace\<close> and the regular-expression classes \<open>\s\<close>, \<open>\w\<close>, \<open>\d\<close>) and
  \<open>str.lower\<close> are tables of the Python runtime, not of this repository: they are the
  fields of a record that every operation takes as its first argument.
\<close>

type_synonym ustr = "nat list"

record ucd =
  isspace :: "nat \<Rightarrow> bool"
  isword :: "nat \<Rightarrow> bool"
  isdigit :: "nat \<Rightarrow> bool"
  lower :: "ustr \<Rightarrow> ustr"

definition ascii :: "string \<Rightarrow> ustr" where
  "ascii s = map of_char s"

definition in_sinhala :: "nat \<Rightarrow> bool" where
  \<comment> \<open>the character class \<open>[U+0D80-U+0DFF]\<close>\<close>
  "in_sinhala c = (0xD80 \<le> c \<and> c \<le> 0xDFF)"

definition py_isspace :: "nat \<Rightarrow> bool" where
  \<comment> \<open>\<open>str.isspace\<close> and \<open>\s\<close> of CPython 3 (Unicode 14), every code point\<close>
  "py_isspace c =
     ((0x9 \<le> c \<and> c \<le> 0xD) \<or> (0x1C \<le> c \<and> c \<le> 0x20) \<or> c = 0x85 \<or> c = 0xA0 \<or>
      c = 0x1680 \<or> (0x2000 \<le> c \<and> c \<le> 0x200A) \<or> c = 0x2028 \<or> c = 0x2029 \<or>
      c = 0x202F \<or> c = 0x205F \<or> c = 0x3000)"

definition py_isdigit :: "nat \<Rightarrow> bool" where
  \<comment> \<open>\<open>\d\<close> on ASCII and on the Sinhala block (the Sinhala Lith digits)\<close>
  "py_isdigit c = ((0x30 \<le> c \<and> c \<le> 0x39) \<or> (0xDE6 \<le> c \<and> c \<le> 0xDEF))"

definition py_isword :: "nat \<Rightarrow> bool" where
  \<comment> \<open>\<open>\w\<close> on ASCII and on the Sinhala block: letters, decimal digits and the underscore.
      The Sinhala vowel signs, the virama U+0DCA and the signs U+0D81..U+0D83 are
      combining marks, which \<open>\w\<close> does not match.\<close>
  "py_isword c =
     ((0x30 \<le> c \<and> c \<le> 0x39) \<or> (0x41 \<le> c \<and> c \<le> 0x5A) \<or> c = 0x5F \<or>
      (0x61 \<le> c \<and> c \<le> 0x7A) \<or>
      (0xD85 \<le> c \<and> c \<le> 0xD96) \<or> (0xD9A \<le> c \<and> c \<le> 0xDB1) \<or>
      (0xDB3 \<le> c \<and> c \<le> 0xDBB) \<or> c = 0xDBD \<or> (0xDC0 \<le> c \<and> c \<le> 0xDC6) \<or>
      (0xDE6 \<le> c \<and> c \<le> 0xDEF))"

definition py_lower_char :: "nat \<Rightarrow> nat" where
  "py_lower_char c = (if 0x41 \<le> c \<and> c \<le> 0x5A then c + 0x20 else c)"

definition py_ucd :: ucd where
  \<comment> \<open>The runtime's tables on ASCII and the Sinhala block, where every concrete input of
      this theory lives (\<open>isspace\<close> is the full table). The general theorems hold for
      every table.\<close>
  "py_ucd = \<lparr> isspace = py_isspace, isword = py_isword, isdigit = py_isdigit,
               lower = map py_lower_char \<rparr>"

subsection \<open>String operations\<close>

definition lstrip :: "ucd \<Rightarrow> ustr \<Rightarrow> ustr" where
  "lstrip U s = dropWhile (isspace U) s"

definition rstrip :: "ucd \<Rightarrow> ustr \<Rightarrow> ustr" where
  "rstrip U s = rev (dropWhile (isspace U) (rev s))"

definition strip :: "ucd \<Rightarrow> ustr \<Rightarrow> ustr" where
  \<comment> \<open>\<open>s.strip()\<close>\<close>
  "strip U s = rstrip U (lstrip U s)"

fun split_run :: "(nat \<Rightarrow> bool) \<Rightarrow> ustr \<Rightarrow> ustr \<Rightarrow> ustr list" where
  \<comment> \<open>the word being read is kept reversed in the second argument\<close>
  "split_run sp cur [] = (if cur = [] then [] else [rev cur])"
| "split_run sp cur (c # cs) =
     (if sp c then (if cur = [] then split_run sp [] cs else rev cur # split_run sp [] cs)
      else split_run sp (c # cur) cs)"

definition split_ws :: "ucd \<Rightarrow> ustr \<Rightarrow> ustr list" where
  \<comment> \<open>\<open>s.split()\<close>: the maximal runs of non-whitespace characters\<close>
  "split_ws U s = split_run (isspace U) [] s"

fun join :: "ustr \<Rightarrow> ustr list \<Rightarrow> ustr" where
  \<comment> \<open>\<open>sep.join(xs)\<close>\<close>
  "join sep [] = []"
| "join sep [x] = x"
| "join sep (x # y # ys) = x @ sep @ join sep (y # ys)"

fun contains :: "ustr \<Rightarrow> ustr \<Rightarrow> bool" where
  \<comment> \<open>\<open>a in s\<close> on strings: \<open>a\<close> occurs in \<open>s\<close> as a contiguous substring\<close>
  "contains a [] = (a = [])"
| "contains a (c # cs) = (prefix a (c # cs) \<or> contains a cs)"

fun replace_from :: "ustr \<Rightarrow> ustr \<Rightarrow> ustr \<Rightarrow> ustr" where
  \<comment> \<open>every leftmost, non-overlapping occurrence of a non-empty \<open>old\<close>\<close>
  "replace_from old new [] = []"
| "replace_from old new (c # cs) =
     (if prefix old (c # cs) then new @ replace_from old new (drop (length old - 1) cs)
      else c # replace_from old new cs)"

definition replace :: "ustr \<Rightarrow> ustr \<Rightarrow> ustr \<Rightarrow> ustr" where
  \<comment> \<open>\<open>s.replace(old, new)\<close>; an empty \<open>old\<close> matches before every character and at
      the end\<close>
  "replace old new s =
     (if old = [] then new @ concat (map (\<lambda>c. c # new) s) else replace_from old new s)"

definition py_slice_from :: "'a list \<Rightarrow> int \<Rightarrow> 'a list" where
  \<comment> \<open>\<open>xs[k:]\<close>: a negative \<open>k\<close> counts from the end, and the bound is clamped\<close>
  "py_slice_from xs k =
     (let n = int (length xs);
          j = (if k < 0 then max (n + k) 0 else min k n)
      in drop (nat j) xs)"

subsection \<open>The regular expressions of the document processor\<close>

fun sub_ws :: "(nat \<Rightarrow> bool) \<Rightarrow> bool \<Rightarrow> ustr \<Rightarrow> ustr" where
  \<comment> \<open>\<open>re.sub(r'\s+', ' ', text)\<close>; the flag says that the previous character was
      whitespace, so that a run gives one space\<close>
  "sub_ws sp inrun [] = []"
| "sub_ws sp inrun (c # cs) =
     (if sp c then (if inrun then sub_ws sp True cs else 0x20 # sub_ws sp True cs)
      else c # sub_ws sp False cs)"

definition allowed_char :: "nat \<Rightarrow> bool" where
  \<comment> \<open>the complement of \<open>[^U+0D80-U+0DFF U+0020-U+007E \n\r\t]\<close>\<close>
  "allowed_char c =
     (in_sinhala c \<or> (0x20 \<le> c \<and> c \<le> 0x7E) \<or> c = 0xA \<or> c = 0xD \<or> c = 0x9)"

definition match_digits :: "(nat \<Rightarrow> bool) \<Rightarrow> ustr \<Rightarrow> ustr \<Rightarrow> ustr \<Rightarrow> nat option" where
  \<comment> \<open>The length of the match of \<open>pre \d+ post\<close> at the start of \<open>s\<close>. \<open>\d+\<close> is greedy;
      both patterns of the source have a \<open>post\<close> that is empty or starts with a space,
      so giving digits back never helps and the match takes every digit.\<close>
  "match_digits dg pre post s =
     (if prefix pre s then
        (let r = drop (length pre) s; ds = takeWhile dg r
         in if ds \<noteq> [] \<and> prefix post (drop (length ds) r)
            then Some (length pre + length ds + length post) else None)
      else None)"

fun sub_digits :: "(nat \<Rightarrow> bool) \<Rightarrow> ustr \<Rightarrow> ustr \<Rightarrow> ustr \<Rightarrow> ustr \<Rightarrow> ustr" where
  \<comment> \<open>\<open>re.sub\<close> of the pattern \<open>pre \d+ post\<close> by \<open>repl\<close>: leftmost matches, not overlapping\<close>
  "sub_digits dg pre post repl [] = []"
| "sub_digits dg pre post repl (c # cs) =
     (case match_digits dg pre post (c # cs) of
        Some n \<Rightarrow> repl @ sub_digits dg pre post repl (drop (n - 1) cs)
      | None \<Rightarrow> c # sub_digits dg pre post repl cs)"

fun re_split :: "(nat \<Rightarrow> bool) \<Rightarrow> ustr \<Rightarrow> ustr list" where
  \<comment> \<open>\<open>re.split\<close> on a character class: one piece more than there are delimiters, empty
      pieces kept\<close>
  "re_split p [] = [[]]"
| "re_split p (c # cs) =
     (if p c then [] # re_split p cs
      else (case re_split p cs of [] \<Rightarrow> [[c]] | x # xs \<Rightarrow> (c # x) # xs))"

section \<open>The document processor\<close>

record document_processor =
  chunk_size :: int
  chunk_overlap :: int

definition document_processor_init :: document_processor where
  \<comment> \<open>the defaults of \<open>__init__\<close>\<close>
  "document_processor_init = \<lparr> chunk_size = 1000, chunk_overlap = 200 \<rparr>"

definition pituwa :: ustr where
  \<comment> \<open>the word for "page" followed by a space\<close>
  "pituwa = [0xDB4, 0xDD2, 0xDA7, 0xDD4, 0xDC0, 0x20]"

definition ocr_fixes :: "(ustr \<times> ustr) list" where
  \<comment> \<open>the nine \<open>text.replace\<close> calls; each has the same code point on both sides\<close>
  "ocr_fixes = [([0xDCF], [0xDCF]), ([0xDD3], [0xDD3]), ([0xDD4], [0xDD4]),
     ([0xDD6], [0xDD6]), ([0xDD9], [0xDD9]), ([0xDDA], [0xDDA]), ([0xDDC], [0xDDC]),
     ([0xDDD], [0xDDD]), ([0xDDE], [0xDDE])]"

definition clean_text :: "ucd \<Rightarrow> ustr \<Rightarrow> ustr" where
  "clean_text U text =
     (let text = sub_ws (isspace U) False text;
          text = filter allowed_char text;
          text = foldl (\<lambda>t (old, new). replace old new t) text ocr_fixes;
          text = sub_digits (isdigit U) pituwa [] [] text;
          text = sub_digits (isdigit U) (ascii ''--- '' @ pituwa) (ascii '' ---'') [0xA] text
      in strip U text)"

definition sentence_end :: "nat \<Rightarrow> bool" where
  \<comment> \<open>the class \<open>[.!?U+17D4]\<close>\<close>
  "sentence_end c = (c = 0x2E \<or> c = 0x21 \<or> c = 0x3F \<or> c = 0x17D4)"

definition sentences_of :: "ucd \<Rightarrow> ustr \<Rightarrow> ustr list" where
  "sentences_of U text =
     map (strip U) (filter (\<lambda>s. strip U s \<noteq> []) (re_split sentence_end text))"

definition overlap_seed :: "ucd \<Rightarrow> document_processor \<Rightarrow> ustr \<Rightarrow> ustr" where
  \<comment> \<open>\<open>' '.join(words[-min(self.chunk_overlap // 10, len(words)):])\<close>\<close>
  "overlap_seed U self current_chunk =
     (let words = split_ws U current_chunk;
          overlap_words =
            py_slice_from words (- min (chunk_overlap self div 10) (int (length words)))
      in join [0x20] overlap_words)"

definition chunk_step ::
  "ucd \<Rightarrow> document_processor \<Rightarrow> ustr list \<times> ustr \<Rightarrow> ustr \<Rightarrow> ustr list \<times> ustr" where
  \<comment> \<open>one round of the loop over the sentences, on the pair \<open>(chunks, current_chunk)\<close>\<close>
  "chunk_step U self st sentence =
     (let chunks = fst st; current_chunk = snd st in
      if int (length current_chunk) + int (length sentence) > chunk_size self then
        (if current_chunk \<noteq> [] then
           (chunks @ [strip U current_chunk],
            if chunk_overlap self > 0
            then overlap_seed U self current_chunk @ [0x20] @ sentence
            else sentence)
         else (chunks, sentence))
      else (chunks, if current_chunk \<noteq> [] then current_chunk @ [0x20] @ sentence
                    else sentence))"

definition packed :: "ucd \<Rightarrow> document_processor \<Rightarrow> ustr list \<Rightarrow> ustr list" where
  \<comment> \<open>the loop, then "add the last chunk"\<close>
  "packed U self sentences =
     (let st = foldl (chunk_step U self) ([], []) sentences;
          chunks = fst st; current_chunk = snd st
      in if strip U current_chunk \<noteq> [] then chunks @ [strip U current_chunk] else chunks)"

definition create_chunks :: "ucd \<Rightarrow> document_processor \<Rightarrow> ustr \<Rightarrow> ustr list" where
  "create_chunks U self text =
     (if text = [] then []
      else filter (\<lambda>chunk. length chunk > 50) (packed U self (sentences_of U text)))"

section \<open>The transliterator\<close>

text \<open>
  A dictionary of the source is read in insertion order by the loops over \<open>items()\<close>, so
  it is an association list in the order of the source; no key is written twice in
  either literal, and a lookup is \<open>map_of\<close>.
\<close>

record transliterator =
  transliteration_map :: "(ustr \<times> ustr) list"
  phrase_map :: "(ustr \<times> ustr) list"

definition transliteration_map_init :: "(ustr \<times> ustr) list" where
  "transliteration_map_init = [
    (ascii ''accounting'',
      [0xD9C, 0xDD2, 0xDAB, 0xDD4, 0xDB8, 0xDCA, 0xD9A, 0xDBB, 0xDAB]),
    (ascii ''ginumkarana'',
      [0xD9C, 0xDD2, 0xDAB, 0xDD4, 0xDB8, 0xDCA, 0xD9A, 0xDBB, 0xDAB]),
    (ascii ''ginumkaranaya'',
      [0xD9C, 0xDD2, 0xDAB, 0xDD4, 0xDB8, 0xDCA, 0xD9A, 0xDBB, 0xDAB, 0xDBA]),
    (ascii ''standard'',
      [0xDB4, 0xDCA, 0x200D, 0xDBB, 0xDB8, 0xDD2, 0xDAD, 0xDD2, 0xDBA]),
    (ascii ''pramiithiya'',
      [0xDB4, 0xDCA, 0x200D, 0xDBB, 0xDB8, 0xDD2, 0xDAD, 0xDD2, 0xDBA]),
    (ascii ''financial'',
      [0xDB8, 0xDD6, 0xDBD, 0xDCA, 0x200D, 0xDBA]),
    (ascii ''moolya'',
      [0xDB8, 0xDD6, 0xDBD, 0xDCA, 0x200D, 0xDBA]),
    (ascii ''statement'',
      [0xDB4, 0xDCA, 0x200D, 0xDBB, 0xD9A, 0xDCF, 0xDC1, 0xDB1, 0xDBA]),
    (ascii ''prakashana'',
      [0xDB4, 0xDCA, 0x200D, 0xDBB, 0xD9A, 0xDCF, 0xDC1, 0xDB1]),
    (ascii ''prakashanaya'',
      [0xDB4, 0xDCA, 0x200D, 0xDBB, 0xD9A, 0xDCF, 0xDC1, 0xDB1, 0xDBA]),
    (ascii ''assets'',
      [0xDC0, 0xDAD, 0xDCA, 0xD9A, 0xDB8, 0xDCA]),
    (ascii ''wathkam'',
      [0xDC0, 0xDAD, 0xDCA, 0xD9A, 0xDB8, 0xDCA]),
    (ascii ''liabilities'',
      [0xDC0, 0xD9C, 0xD9A, 0xDD3, 0xDB8, 0xDCA]),
    (ascii ''wagakeem'',
      [0xDC0, 0xD9C, 0xD9A, 0xDD3, 0xDB8, 0xDCA]),
    (ascii ''equity'',
      [0xDC4, 0xDD2, 0xDB8, 0xDD2, 0xD9A, 0xDB8]),
    (ascii ''himikam'',
      [0xDC4, 0xDD2, 0xDB8, 0xDD2, 0xD9A, 0xDB8]),
    (ascii ''revenue'',
      [0xD86, 0xDAF, 0xDCF, 0xDBA, 0xDB8, 0xDCA]),
    (ascii ''aadayam'',
      [0xD86, 0xDAF, 0xDCF, 0xDBA, 0xDB8, 0xDCA]),
    (ascii ''income'',
      [0xD86, 0xDAF, 0xDCF, 0xDBA, 0xDB8, 0xDCA]),
    (ascii ''expenses'',
      [0xDC0, 0xDD2, 0xDBA, 0xDAF, 0xDB8, 0xDCA]),
    (ascii ''wiyadam'',
      [0xDC0, 0xDD2, 0xDBA, 0xDAF, 0xDB8, 0xDCA]),
    (ascii ''profit'',
      [0xDBD, 0xDCF, 0xDB7]),
    (ascii ''labha'',
      [0xDBD, 0xDCF, 0xDB7]),
    (ascii ''loss'',
      [0xD85, 0xDBD, 0xDCF, 0xDB7]),
    (ascii ''alabha'',
      [0xD85, 0xDBD, 0xDCF, 0xDB7]),
    (ascii ''inventory'',
      [0xDAD, 0xDDC, 0xD9C]),
    (ascii ''thoga'',
      [0xDAD, 0xDDC, 0xD9C]),
    (ascii ''depreciation'',
      [0xD9A, 0xDCA, 0xDC2, 0xDBA]),
    (ascii ''kshaya'',
      [0xD9A, 0xDCA, 0xDC2, 0xDBA]),
    (ascii ''provision'',
      [0xDB4, 0xDCA, 0x200D, 0xDBB, 0xDAD, 0xDD2, 0xDB4, 0xDCF, 0xDAF, 0xDB1]),
    (ascii ''prathipaadana'',
      [0xDB4, 0xDCA, 0x200D, 0xDBB, 0xDAD, 0xDD2, 0xDB4, 0xDCF, 0xDAF, 0xDB1]),
    (ascii ''cash'',
      [0xDB8, 0xDD4, 0xDAF, 0xDBD, 0xDCA]),
    (ascii ''mudal'',
      [0xDB8, 0xDD4, 0xDAF, 0xDBD, 0xDCA]),
    (ascii ''flow'',
      [0xDB4, 0xDCA, 0x200D, 0xDBB, 0xDC0, 0xDCF, 0xDC4]),
    (ascii ''prawaha'',
      [0xDB4, 0xDCA, 0x200D, 0xDBB, 0xDC0, 0xDCF, 0xDC4]),
    (ascii ''lease'',
      [0xD9A, 0xDBD, 0xDCA, 0xDB6, 0xDAF, 0xDD4]),
    (ascii ''kalbadu'',
      [0xD9A, 0xDBD, 0xDCA, 0xDB6, 0xDAF, 0xDD4]),
    (ascii ''customer'',
      [0xD9C, 0xDB1, 0xDD4, 0xDAF, 0xDD9, 0xDB1, 0xDD4, 0xD9A, 0xDBB, 0xDD4]),
    (ascii ''ganudenukaraya'',
      [0xD9C, 0xDB1, 0xDD4, 0xDAF, 0xDD9, 0xDB1, 0xDD4, 0xD9A, 0xDBB, 0xDD4]),
    (ascii ''carrying'',
      [0xDB0, 0xDCF, 0xDBB, 0xDAB]),
    (ascii ''dharana'',
      [0xDB0, 0xDCF, 0xDBB, 0xDAB]),
    (ascii ''value'',
      [0xDC0, 0xDA7, 0xDD2, 0xDB1, 0xDCF, 0xD9A, 0xDB8]),
    (ascii ''watinaakama'',
      [0xDC0, 0xDA7, 0xDD2, 0xDB1, 0xDCF, 0xD9A, 0xDB8]),
    (ascii ''cost'',
      [0xDB4, 0xDD2, 0xDBB, 0xDD2, 0xDC0, 0xDD0, 0xDBA]),
    (ascii ''piriwaya'',
      [0xDB4, 0xDD2, 0xDBB, 0xDD2, 0xDC0, 0xDD0, 0xDBA]),
    (ascii ''fair'',
      [0xDC3, 0xDCF, 0xDB0, 0xDCF, 0xDBB, 0xDAB]),
    (ascii ''saadarana'',
      [0xDC3, 0xDCF, 0xDB0, 0xDCF, 0xDBB, 0xDAB]),
    (ascii ''contract'',
      [0xD9C, 0xDD2, 0xDC0, 0xDD2, 0xDC3, 0xDD4, 0xDB8, 0xDCA]),
    (ascii ''giwisuma'',
      [0xD9C, 0xDD2, 0xDC0, 0xDD2, 0xDC3, 0xDD4, 0xDB8, 0xDCA]),
    (ascii ''performance'',
      [0xD9A, 0xDCF, 0xDBB, 0xDCA, 0xDBA, 0xDC3, 0xDCF, 0xDB0, 0xDB1]),
    (ascii ''kaaryasadhana'',
      [0xD9A, 0xDCF, 0xDBB, 0xDCA, 0xDBA, 0xDC3, 0xDCF, 0xDB0, 0xDB1]),
    (ascii ''obligation'',
      [0xDB6, 0xDD0, 0xDB3, 0xDD3, 0xDB8, 0xDCA]),
    (ascii ''baendeem'',
      [0xDB6, 0xDD0, 0xDB3, 0xDD3, 0xDB8, 0xDCA]),
    (ascii ''revaluation'',
      [0xDB4, 0xDCA, 0x200D, 0xDBB, 0xDAD, 0xDBA, 0xDCF, 0xD9C, 0xDAB, 0xDB1]),
    (ascii ''prathyaagana'',
      [0xDB4, 0xDCA, 0x200D, 0xDBB, 0xDAD, 0xDBA, 0xDCF, 0xD9C, 0xDAB, 0xDB1]),
    (ascii ''right'',
      [0xD85, 0xDBA, 0xDD2, 0xDAD, 0xDD2, 0xDBA]),
    (ascii ''ayithiya'',
      [0xD85, 0xDBA, 0xDD2, 0xDAD, 0xDD2, 0xDBA]),
    (ascii ''use'',
      [0xDB7, 0xDCF, 0xDC0, 0xDD2, 0xDAD]),
    (ascii ''bhaawitha'',
      [0xDB7, 0xDCF, 0xDC0, 0xDD2, 0xDAD]),
    (ascii ''property'',
      [0xDAF, 0xDDA, 0xDB4, 0xDC5]),
    (ascii ''depala'',
      [0xDAF, 0xDDA, 0xDB4, 0xDC5]),
    (ascii ''plant'',
      [0xDB4, 0xDD2, 0xDBB, 0xDD2, 0xDBA, 0xDAD]),
    (ascii ''piriyatha'',
      [0xDB4, 0xDD2, 0xDBB, 0xDD2, 0xDBA, 0xDAD]),
    (ascii ''equipment'',
      [0xD8B, 0xDB4, 0xD9A, 0xDBB, 0xDAB]),
    (ascii ''upakarana'',
      [0xD8B, 0xDB4, 0xD9A, 0xDBB, 0xDAB]),
    (ascii ''contingent'',
      [0xD85, 0xDC3, 0xDB8, 0xDCA, 0xDB7, 0xDCF, 0xDC0, 0xDCA, 0x200D, 0xDBA]),
    (ascii ''asambhaawya'',
      [0xD85, 0xDC3, 0xDB8, 0xDCA, 0xDB7, 0xDCF, 0xDC0, 0xDCA, 0x200D, 0xDBA]),
    (ascii ''what'',
      [0xDB8, 0xDDC, 0xD9A, 0xD9A, 0xDCA, 0xDAF]),
    (ascii ''mokakda'',
      [0xDB8, 0xDDC, 0xD9A, 0xD9A, 0xDCA, 0xDAF]),
    (ascii ''how'',
      [0xD9A, 0xDDC, 0xDC4, 0xDDC, 0xDB8, 0xDAF]),
    (ascii ''kohomada'',
      [0xD9A, 0xDDC, 0xDC4, 0xDDC, 0xDB8, 0xDAF]),
    (ascii ''when'',
      [0xD9A, 0xDC0, 0xDAF, 0xDCF, 0xDAF]),
    (ascii ''kawadaada'',
      [0xD9A, 0xDC0, 0xDAF, 0xDCF, 0xDAF]),
    (ascii ''where'',
      [0xD9A, 0xDDC, 0xDC4, 0xDDA, 0xDAF]),
    (ascii ''koheda'',
      [0xD9A, 0xDDC, 0xDC4, 0xDDA, 0xDAF]),
    (ascii ''why'',
      [0xD87, 0xDBA, 0xDD2]),
    (ascii ''ayee'',
      [0xD87, 0xDBA, 0xDD2]),
    (ascii ''which'',
      [0xD9A, 0xDD4, 0xDB8, 0xDB1]),
    (ascii ''kumana'',
      [0xD9A, 0xDD4, 0xDB8, 0xDB1]),
    (ascii ''lkas'',
      [0xDC1, 0xDCA, 0x200D, 0xDBB, 0xDD3, 0x20, 0xDBD, 0xD82, 0xD9A, 0xDCF, 0x20, 0xD9C, 0xDD2, 0xDAB, 0xDD4, 0xDB8, 0xDCA, 0xD9A, 0xDBB, 0xDAB, 0x20, 0xDB4, 0xDCA, 0x200D, 0xDBB, 0xDB8, 0xDD2, 0xDAD, 0xDD2, 0xDBA]),
    (ascii ''slfrs'',
      [0xDC1, 0xDCA, 0x200D, 0xDBB, 0xDD3, 0x20, 0xDBD, 0xD82, 0xD9A, 0xDCF, 0x20, 0xDB8, 0xDD6, 0xDBD, 0xDCA, 0x200D, 0xDBA, 0x20, 0xDC0, 0xDCF, 0xDBB, 0xDCA, 0xDAD, 0xDCF, 0xD9A, 0xDBB, 0xDAB, 0x20, 0xDB4, 0xDCA, 0x200D, 0xDBB, 0xDB8, 0xDD2, 0xDAD, 0xDD2, 0xDBA])]"

definition phrase_map_init :: "(ustr \<times> ustr) list" where
  "phrase_map_init = [
    (ascii ''ginumkaranaya kohomada'',
      [0xD9C, 0xDD2, 0xDAB, 0xDD4, 0xDB8, 0xDCA, 0xD9A, 0xDBB, 0xDAB, 0xDBA, 0x20, 0xD9A, 0xDDC, 0xDC4, 0xDDC, 0xDB8, 0xDAF]),
    (ascii ''moolya prakashana'',
      [0xDB8, 0xDD6, 0xDBD, 0xDCA, 0x200D, 0xDBA, 0x20, 0xDB4, 0xDCA, 0x200D, 0xDBB, 0xD9A, 0xDCF, 0xDC1, 0xDB1]),
    (ascii ''wathkam saha wagakeem'',
      [0xDC0, 0xDAD, 0xDCA, 0xD9A, 0xDB8, 0xDCA, 0x20, 0xDC3, 0xDC4, 0x20, 0xDC0, 0xD9C, 0xD9A, 0xDD3, 0xDB8, 0xDCA]),
    (ascii ''labha alaba prakashana'',
      [0xDBD, 0xDCF, 0xDB7, 0x20, 0xD85, 0xDBD, 0xDCF, 0xDB7, 0x20, 0xDB4, 0xDCA, 0x200D, 0xDBB, 0xD9A, 0xDCF, 0xDC1, 0xDB1]),
    (ascii ''mudal prawaha'',
      [0xDB8, 0xDD4, 0xDAF, 0xDBD, 0xDCA, 0x20, 0xDB4, 0xDCA, 0x200D, 0xDBB, 0xDC0, 0xDCF, 0xDC4]),
    (ascii ''himikam wenas weema'',
      [0xDC4, 0xDD2, 0xDB8, 0xDD2, 0xD9A, 0xDB8, 0x20, 0xDC0, 0xDD9, 0xDB1, 0xDC3, 0xDCA, 0x20, 0xDC0, 0xDD3, 0xDB8]),
    (ascii ''thoga watinaakama'',
      [0xDAD, 0xDDC, 0xD9C, 0x20, 0xDC0, 0xDA7, 0xDD2, 0xDB1, 0xDCF, 0xD9A, 0xDB8]),
    (ascii ''depala piriyatha upakarana'',
      [0xDAF, 0xDDA, 0xDB4, 0xDC5, 0x20, 0xDB4, 0xDD2, 0xDBB, 0xDD2, 0xDBA, 0xDAD, 0x20, 0xD8B, 0xDB4, 0xD9A, 0xDBB, 0xDAB]),
    (ascii ''kshaya kireema'',
      [0xD9A, 0xDCA, 0xDC2, 0xDBA, 0x20, 0xD9A, 0xDD2, 0xDBB, 0xDD3, 0xDB8]),
    (ascii ''prathipaadana haduna gaaneema'',
      [0xDB4, 0xDCA, 0x200D, 0xDBB, 0xDAD, 0xDD2, 0xDB4, 0xDCF, 0xDAF, 0xDB1, 0x20, 0xDC4, 0xDB3, 0xDD4, 0xDB1, 0xDCF, 0x20, 0xD9C, 0xDD0, 0xDB1, 0xDD3, 0xDB8])]"

definition transliterator_init :: transliterator where
  \<comment> \<open>\<open>__init__\<close>: the built-in dictionaries\<close>
  "transliterator_init =
     \<lparr> transliteration_map = transliteration_map_init, phrase_map = phrase_map_init \<rparr>"

datatype py_error = ZeroDivisionError

definition truediv :: "nat \<Rightarrow> nat \<Rightarrow> py_error + rat" where
  \<comment> \<open>\<open>a / b\<close> on two lengths. The source compares the quotient, a float, with the
      literals 0.5 and 0.3; the correctly rounded quotient is above the literal exactly
      when the exact quotient is above 1/2 or 3/10, for every denominator below
      \<open>10 ^ 15\<close>, so the quotient is kept exact.\<close>
  "truediv a b = (if b = 0 then Inl ZeroDivisionError else Inr (of_nat a / of_nat b))"

definition is_sinhala_text :: "ucd \<Rightarrow> ustr \<Rightarrow> py_error + bool" where
  "is_sinhala_text U text =
     (let sinhala_chars = length (filter in_sinhala text);
          total_chars = length (filter (isword U) text)
      in if total_chars > 0 then
           (case truediv sinhala_chars total_chars of
              Inl e \<Rightarrow> Inl e
            | Inr r \<Rightarrow> Inr (r > 1 / 2))
         else Inr False)"

fun find_partial_match_in :: "(ustr \<times> ustr) list \<Rightarrow> ustr \<Rightarrow> ustr" where
  \<comment> \<open>the loop of \<open>_find_partial_match\<close> over the entries that are left\<close>
  "find_partial_match_in [] word = word"
| "find_partial_match_in ((eng_word, sin_word) # rest) word =
     (if contains word eng_word \<or> contains eng_word word then
        (if length word > 3 then sin_word else find_partial_match_in rest word)
      else find_partial_match_in rest word)"

definition find_partial_match :: "transliterator \<Rightarrow> ustr \<Rightarrow> ustr" where
  "find_partial_match self word = find_partial_match_in (transliteration_map self) word"

definition translation_score :: "ustr \<Rightarrow> ustr \<Rightarrow> py_error + rat" where
  \<comment> \<open>\<open>original_words\<close> is computed and never read\<close>
  "translation_score original translated =
     (if original = translated then Inr 0
      else
        (let translated_sinhala_chars = length (filter in_sinhala translated);
             total_chars = length translated
         in if total_chars = 0 then Inr 0
            else truediv translated_sinhala_chars total_chars))"

definition phrase_pass :: "transliterator \<Rightarrow> ustr \<Rightarrow> ustr" where
  \<comment> \<open>the loop over \<open>phrase_map.items()\<close>\<close>
  "phrase_pass self query_lower =
     foldl (\<lambda>q (eng_phrase, sin_phrase).
              if contains eng_phrase q then replace eng_phrase sin_phrase q else q)
       query_lower (phrase_map self)"

definition clean_word_of :: "ucd \<Rightarrow> ustr \<Rightarrow> ustr" where
  \<comment> \<open>\<open>re.sub(r'[^\w]', '', word)\<close>\<close>
  "clean_word_of U word = filter (isword U) word"

definition translate_word :: "ucd \<Rightarrow> transliterator \<Rightarrow> ustr \<Rightarrow> ustr" where
  \<comment> \<open>the body of the loop over \<open>words\<close>: what is appended to \<open>translated_words\<close>\<close>
  "translate_word U self word =
     (let clean_word = clean_word_of U word in
      case map_of (transliteration_map self) clean_word of
        Some sin_word \<Rightarrow> sin_word
      | None \<Rightarrow>
          (let translated = find_partial_match self clean_word
           in if translated \<noteq> [] then translated else word))"

definition candidate :: "ucd \<Rightarrow> transliterator \<Rightarrow> ustr \<Rightarrow> ustr" where
  \<comment> \<open>\<open>result\<close> of \<open>process_query\<close>: the phrase pass, the word pass and the join\<close>
  "candidate U self query =
     (let query_lower = lower U query;
          query_lower = phrase_pass self query_lower;
          words = split_ws U query_lower;
          translated_words = map (translate_word U self) words
      in join [0x20] translated_words)"

definition process_query :: "ucd \<Rightarrow> transliterator \<Rightarrow> ustr \<Rightarrow> py_error + ustr" where
  "process_query U self query =
     (if query = [] then Inr query
      else
        (case is_sinhala_text U query of
           Inl e \<Rightarrow> Inl e
         | Inr True \<Rightarrow> Inr query
         | Inr False \<Rightarrow>
             (let result = candidate U self query in
              case translation_score query result of
                Inl e \<Rightarrow> Inl e
              | Inr score \<Rightarrow> if score > 3 / 10 then Inr result else Inr query)))"

section \<open>The document processor with its loops and failures written out\<close>

text \<open>
  The functions of the document processor above are total by their form. Here the same
  statements of the source are written with what could keep them from returning: the
  scans of \<open>re.sub\<close> and \<open>str.replace\<close> go on where a match ends; the step the
  library takes over an empty match is left out, so a scan over an empty match would
  not advance here, and not returning is the value \<open>None\<close>; the division of \<open>create_chunks\<close> raises \<open>ZeroDivisionError\<close> on a zero
  divisor, and the error is passed on through the loop. The other operations (the
  whitespace pattern, the character filter, \<open>split\<close>, \<open>strip\<close>, \<open>join\<close>, slices,
  \<open>len\<close> and \<open>min\<close>) run once over a finite string or list and raise nothing.
\<close>

partial_function (option) sub_digits_scan ::
  "(nat \<Rightarrow> bool) \<Rightarrow> ustr \<Rightarrow> ustr \<Rightarrow> ustr \<Rightarrow> ustr \<Rightarrow> ustr option" where
  \<comment> \<open>\<open>re.sub\<close> of the pattern \<open>pre \d+ post\<close>: after a match the scan goes on where
      the match ends\<close>
  "sub_digits_scan dg pre post repl s =
     (case s of
        [] \<Rightarrow> Some []
      | c # cs \<Rightarrow>
          (case match_digits dg pre post s of
             Some n \<Rightarrow>
               Option.bind (sub_digits_scan dg pre post repl (drop n s)) (\<lambda>r. Some (repl @ r))
           | None \<Rightarrow>
               Option.bind (sub_digits_scan dg pre post repl cs) (\<lambda>r. Some (c # r))))"

partial_function (option) replace_scan :: "ustr \<Rightarrow> ustr \<Rightarrow> ustr \<Rightarrow> ustr option" where
  \<comment> \<open>\<open>s.replace(old, new)\<close>: after an occurrence the scan goes on where it ends\<close>
  "replace_scan old new s =
     (case s of
        [] \<Rightarrow> Some []
      | c # cs \<Rightarrow>
          (if prefix old s
           then Option.bind (replace_scan old new (drop (length old) s)) (\<lambda>r. Some (new @ r))
           else Option.bind (replace_scan old new cs) (\<lambda>r. Some (c # r))))"

definition replace_checked :: "ustr \<Rightarrow> ustr \<Rightarrow> ustr \<Rightarrow> ustr option" where
  \<comment> \<open>an empty \<open>old\<close> is not scanned for: it matches before every character and at the
      end\<close>
  "replace_checked old new s =
     (if old = [] then Some (new @ concat (map (\<lambda>c. c # new) s)) else replace_scan old new s)"

fun replace_each :: "(ustr \<times> ustr) list \<Rightarrow> ustr \<Rightarrow> ustr option" where
  \<comment> \<open>the \<open>text.replace\<close> calls, one after the other\<close>
  "replace_each [] text = Some text"
| "replace_each ((old, new) # rest) text =
     Option.bind (replace_checked old new text) (replace_each rest)"

definition clean_text_checked :: "ucd \<Rightarrow> ustr \<Rightarrow> ustr option" where
  "clean_text_checked U text =
     (let text = sub_ws (isspace U) False text;
          text = filter allowed_char text
      in Option.bind (replace_each ocr_fixes text) (\<lambda>text.
         Option.bind (sub_digits_scan (isdigit U) pituwa [] [] text) (\<lambda>text.
         Option.bind (sub_digits_scan (isdigit U) (ascii ''--- '' @ pituwa) (ascii '' ---'')
                        [0xA] text) (\<lambda>text.
         Some (strip U text)))))"

definition floordiv :: "int \<Rightarrow> int \<Rightarrow> py_error + int" where
  \<comment> \<open>\<open>a // b\<close>\<close>
  "floordiv a b = (if b = 0 then Inl ZeroDivisionError else Inr (a div b))"

definition overlap_seed_checked :: "ucd \<Rightarrow> document_processor \<Rightarrow> ustr \<Rightarrow> py_error + ustr" where
  \<comment> \<open>\<open>' '.join(words[-min(self.chunk_overlap // 10, len(words)):])\<close>\<close>
  "overlap_seed_checked U self current_chunk =
     (let words = split_ws U current_chunk in
      case floordiv (chunk_overlap self) 10 of
        Inl e \<Rightarrow> Inl e
      | Inr q \<Rightarrow> Inr (join [0x20] (py_slice_from words (- min q (int (length words))))))"

definition chunk_step_checked ::
  "ucd \<Rightarrow> document_processor \<Rightarrow> ustr list \<times> ustr \<Rightarrow> ustr \<Rightarrow> py_error + ustr list \<times> ustr"
  where
  "chunk_step_checked U self st sentence =
     (let chunks = fst st; current_chunk = snd st in
      if int (length current_chunk) + int (length sentence) > chunk_size self then
        (if current_chunk \<noteq> [] then
           (if chunk_overlap self > 0 then
              (case overlap_seed_checked U self current_chunk of
                 Inl e \<Rightarrow> Inl e
               | Inr seed \<Rightarrow> Inr (chunks @ [strip U current_chunk], seed @ [0x20] @ sentence))
            else Inr (chunks @ [strip U current_chunk], sentence))
         else Inr (chunks, sentence))
      else Inr (chunks, if current_chunk \<noteq> [] then current_chunk @ [0x20] @ sentence
                        else sentence))"

fun chunk_loop_checked ::
  "ucd \<Rightarrow> document_processor \<Rightarrow> ustr list \<times> ustr \<Rightarrow> ustr list \<Rightarrow> py_error + ustr list \<times> ustr"
  where
  "chunk_loop_checked U self st [] = Inr st"
| "chunk_loop_checked U self st (sentence # rest) =
     (case chunk_step_checked U self st sentence of
        Inl e \<Rightarrow> Inl e
      | Inr st' \<Rightarrow> chunk_loop_checked U self st' rest)"

definition create_chunks_checked ::
  "ucd \<Rightarrow> document_processor \<Rightarrow> ustr \<Rightarrow> py_error + ustr list" where
  "create_chunks_checked U self text =
     (if text = [] then Inr []
      else
        (case chunk_loop_checked U self ([], []) (sentences_of U text) of
           Inl e \<Rightarrow> Inl e
         | Inr st \<Rightarrow>
             (let chunks = fst st; current_chunk = snd st;
                  chunks = (if strip U current_chunk \<noteq> [] then chunks @ [strip U current_chunk]
                            else chunks)
              in Inr (filter (\<lambda>chunk. length chunk > 50) chunks))))"

section \<open>The terms of the specification\<close>

definition is_native_script :: "ucd \<Rightarrow> ustr \<Rightarrow> bool" where
  \<comment> \<open>the specification's \<open>isNativeScript\<close>: there is a word character, and the Sinhala
      characters are more than half as many as the word characters\<close>
  "is_native_script U text =
     (length (filter (isword U) text) > 0 \<and>
      (of_nat (length (filter in_sinhala text)) / of_nat (length (filter (isword U) text)) :: rat)
        > 1 / 2)"

definition spec_score :: "ustr \<Rightarrow> ustr \<Rightarrow> rat" where
  \<comment> \<open>the specification's confidence score of a candidate: 0 when the candidate is the
      query, else the share of Sinhala characters in the candidate (of an empty
      candidate, 0 again: a quotient by 0 is 0 in HOL)\<close>
  "spec_score query cand =
     (if cand = query then 0
      else of_nat (length (filter in_sinhala cand)) / of_nat (length cand))"

definition qualifying_partial_match :: "transliterator \<Rightarrow> ustr \<Rightarrow> bool" where
  \<comment> \<open>the specification's partial match of a stripped token: it has more than 3
      characters, and some key of the dictionary contains it or is contained in it\<close>
  "qualifying_partial_match self token =
     (length token > 3 \<and>
      list_ex (\<lambda>(eng_word, sin_word). contains token eng_word \<or> contains eng_word token)
        (transliteration_map self))"

definition ascii_upper :: "nat \<Rightarrow> bool" where
  "ascii_upper c = (0x41 \<le> c \<and> c \<le> 0x5A)"

definition values_of :: "(ustr \<times> ustr) list \<Rightarrow> nat set" where
  \<comment> \<open>the characters of the values of a dictionary\<close>
  "values_of m = (\<Union>v \<in> snd ` set m. set v)"

section \<open>Properties of the document processor\<close>

lemmas chunk_eval = create_chunks_def packed_def sentences_of_def chunk_step_def strip_def
  lstrip_def rstrip_def sentence_end_def py_ucd_def py_isspace_def split_ws_def
  overlap_seed_def py_slice_from_def ascii_def

subsection \<open>The overlap and the size bound in general\<close>

text \<open>
  From an overlap of 10 on, the seed of the next buffer is the last
  \<open>min (chunk_overlap div 10) (number of words)\<close> words of the buffer, joined by
  single spaces.
\<close>

lemma nat_slice_start:
  assumes "0 \<le> m" and "m \<le> int l"
  shows "nat (max (int l + - m) 0) = l - nat m"
proof -
  from assms(1) obtain k where k: "m = int k" by (auto dest: zero_le_imp_eq_int)
  with assms(2) have "k \<le> l" by simp
  then have "max (int l + - int k) 0 = int (l - k)" by simp
  with k show ?thesis by simp
qed

lemma overlap_seed_last_words:
  assumes "10 \<le> chunk_overlap self"
  shows "overlap_seed U self cur =
     join [0x20] (drop (length (split_ws U cur)
        - nat (min (chunk_overlap self div 10) (int (length (split_ws U cur)))))
       (split_ws U cur))"
proof (cases "split_ws U cur = []")
  case True
  then show ?thesis by (simp add: overlap_seed_def py_slice_from_def)
next
  case False
  let ?n = "int (length (split_ws U cur))"
  let ?m = "min (chunk_overlap self div 10) ?n"
  from assms have d: "1 \<le> chunk_overlap self div 10" by simp
  from False have n: "1 \<le> ?n" by (cases "split_ws U cur") simp_all
  from d n have m: "0 < ?m" by arith
  have "?m \<le> ?n" by simp
  with m have "nat (max (?n + - ?m) 0) = length (split_ws U cur) - nat ?m"
    by (intro nat_slice_start) simp_all
  with m show ?thesis by (simp add: overlap_seed_def py_slice_from_def Let_def)
qed

text \<open>
  Without overlap, and when no sentence is longer than \<open>chunk_size\<close>, a chunk has at
  most \<open>chunk_size + 1\<close> characters: the test of the loop counts the two lengths, and
  the space that joins them comes on top.
\<close>

lemma length_strip_le: "length (strip U s) \<le> length s"
proof -
  have "length (strip U s) \<le> length (lstrip U s)"
    using length_dropWhile_le [of "isspace U" "rev (lstrip U s)"]
    by (simp add: strip_def rstrip_def)
  also have "\<dots> \<le> length s" by (simp add: lstrip_def length_dropWhile_le)
  finally show ?thesis .
qed

lemma chunk_step_bound:
  assumes "chunk_overlap self \<le> 0" and "int (length sentence) \<le> chunk_size self"
      and "\<forall>c \<in> set (fst st). int (length c) \<le> chunk_size self + 1"
      and "int (length (snd st)) \<le> chunk_size self + 1"
  shows "(\<forall>c \<in> set (fst (chunk_step U self st sentence)). int (length c) \<le> chunk_size self + 1)
     \<and> int (length (snd (chunk_step U self st sentence))) \<le> chunk_size self + 1"
  using assms length_strip_le [of U "snd st"]
  by (auto simp add: chunk_step_def Let_def)

lemma foldl_chunk_step_bound:
  assumes "chunk_overlap self \<le> 0"
      and "\<forall>s \<in> set sentences. int (length s) \<le> chunk_size self"
      and "\<forall>c \<in> set (fst st). int (length c) \<le> chunk_size self + 1"
      and "int (length (snd st)) \<le> chunk_size self + 1"
  shows "(\<forall>c \<in> set (fst (foldl (chunk_step U self) st sentences)).
            int (length c) \<le> chunk_size self + 1)
     \<and> int (length (snd (foldl (chunk_step U self) st sentences))) \<le> chunk_size self + 1"
  using assms(2-4)
proof (induction sentences arbitrary: st)
  case Nil
  then show ?case by simp
next
  case (Cons s sentences)
  from Cons.prems chunk_step_bound [OF assms(1), of s st U]
  have "(\<forall>c \<in> set (fst (chunk_step U self st s)). int (length c) \<le> chunk_size self + 1)
     \<and> int (length (snd (chunk_step U self st s))) \<le> chunk_size self + 1"
    by simp
  with Cons.IH [of "chunk_step U self st s"] Cons.prems(1) show ?case by simp
qed

lemma create_chunks_bound_without_overlap:
  assumes "chunk_overlap self \<le> 0" and "0 \<le> chunk_size self"
      and "\<forall>s \<in> set (sentences_of U text). int (length s) \<le> chunk_size self"
  shows "\<forall>chunk \<in> set (create_chunks U self text). int (length chunk) \<le> chunk_size self + 1"
proof -
  let ?st = "foldl (chunk_step U self) ([], []) (sentences_of U text)"
  from foldl_chunk_step_bound [OF assms(1,3), of "([], [])" U] assms(2)
  have w: "(\<forall>c \<in> set (fst ?st). int (length c) \<le> chunk_size self + 1)
     \<and> int (length (snd ?st)) \<le> chunk_size self + 1"
    by simp
  with length_strip_le [of U "snd ?st"]
  have "\<forall>c \<in> set (packed U self (sentences_of U text)). int (length c) \<le> chunk_size self + 1"
    by (auto simp add: packed_def Let_def)
  then show ?thesis by (simp add: create_chunks_def)
qed

subsection \<open>The claims on the document processor\<close>

text \<open>
  C3. Whatever the text, the chunk size and the overlap, every chunk that
  \<open>create_chunks\<close> returns is longer than 50 characters: the last statement of the
  function filters the list.
\<close>

theorem create_chunks_longer_than_50:
  "\<forall>chunk \<in> set (create_chunks U self text). length chunk > 50"
  by (simp add: create_chunks_def)

theorem create_chunks_longer_than_50_witness:
  "ascii ''the balance sheet lists assets income statement lists revenue''
     \<in> set (create_chunks py_ucd \<lparr>chunk_size = 60, chunk_overlap = 0\<rparr>
         (ascii ''the balance sheet lists assets. income statement lists revenue.''))
   \<and> length (ascii ''the balance sheet lists assets income statement lists revenue'') > 50"
proof -
  have e: "create_chunks py_ucd \<lparr>chunk_size = 60, chunk_overlap = 0\<rparr>
         (ascii ''the balance sheet lists assets. income statement lists revenue.'')
      = [ascii ''the balance sheet lists assets income statement lists revenue'']"
    by (simp add: chunk_eval)
  have m: "ascii ''the balance sheet lists assets income statement lists revenue''
     \<in> set (create_chunks py_ucd \<lparr>chunk_size = 60, chunk_overlap = 0\<rparr>
         (ascii ''the balance sheet lists assets. income statement lists revenue.''))"
    unfolding e by simp
  with create_chunks_longer_than_50 [of py_ucd "\<lparr>chunk_size = 60, chunk_overlap = 0\<rparr>"
      "ascii ''the balance sheet lists assets. income statement lists revenue.''"]
  show ?thesis by blast
qed

text \<open>
  C1. The claim: with a positive overlap, the buffer that follows an emitted chunk starts
  with the last \<open>min (chunk_overlap div 10) (number of words)\<close> words of that chunk, so
  with no word at all when \<open>chunk_overlap div 10 = 0\<close>. The code takes the slice
  \<open>words[-min(...):]\<close>, and \<open>words[-0:]\<close> is the whole list: with \<open>chunk_overlap = 5\<close>
  the second chunk below starts with all nine words of the first one.
\<close>

theorem create_chunks_overlap_below_ten:
  "create_chunks py_ucd \<lparr>chunk_size = 60, chunk_overlap = 5\<rparr>
     (ascii ''assets and liabilities are listed on the balance sheet. revenue and expenses are on the statement of income ok.'')
   = [ascii ''assets and liabilities are listed on the balance sheet'',
      ascii ''assets and liabilities are listed on the balance sheet revenue and expenses are on the statement of income ok'']"
  by (simp add: chunk_eval)

text \<open>
  C2. The claim: when no sentence is longer than \<open>chunk_size\<close>, a chunk that does not
  start with an overlap has at most \<open>chunk_size\<close> characters. The test of the loop adds
  the two lengths and leaves out the space that joins them: with \<open>chunk_size = 60\<close> and
  no overlap, two sentences of 30 characters give one chunk of 61.
\<close>

theorem create_chunks_exceeds_chunk_size:
  "create_chunks py_ucd \<lparr>chunk_size = 60, chunk_overlap = 0\<rparr>
     (ascii ''the balance sheet lists assets. income statement lists revenue.'')
   = [ascii ''the balance sheet lists assets income statement lists revenue'']
   \<and> length (ascii ''the balance sheet lists assets income statement lists revenue'') = 61"
  by (simp add: chunk_eval)

text \<open>
  C8. The claim: \<open>clean_text\<close> replaces a page marker \<open>--- pituwa <digits> ---\<close> by one
  newline and leaves no remnant of it. The footer pattern \<open>pituwa <digits>\<close> is removed
  first, also inside the marker, so the marker pattern finds nothing and both runs of
  dashes stay: the marker that \<open>extract_text_from_pdf\<close> writes in front of page 1,
  followed by the page text \<open>abc\<close>, is cleaned to \<open>---  --- abc\<close>.
\<close>

theorem clean_text_keeps_marker_dashes:
  "clean_text py_ucd ([0xA] @ ascii ''--- '' @ pituwa @ ascii ''1 ---'' @ [0xA] @ ascii ''abc'')
     = ascii ''---  --- abc''"
  by (simp add: clean_text_def ocr_fixes_def replace_def pituwa_def match_digits_def
      allowed_char_def in_sinhala_def py_isdigit_def strip_def lstrip_def rstrip_def
      py_ucd_def py_isspace_def ascii_def)

section \<open>Properties of the transliterator\<close>

lemmas norm_eval = process_query_def candidate_def phrase_pass_def translate_word_def
  clean_word_of_def find_partial_match_def is_sinhala_text_def translation_score_def
  truediv_def transliterator_init_def transliteration_map_init_def phrase_map_init_def
  replace_def split_ws_def ascii_def py_ucd_def py_isspace_def py_isword_def
  py_lower_char_def in_sinhala_def

text \<open>
  C5. The claim: \<open>process_query\<close> on \<open>ginumkaranaya kohomada\<close> returns the value of the
  phrase map, U+0D9C U+0DD2 U+0DAB U+0DD4 U+0DB8 U+0DCA U+0D9A U+0DBB U+0DAB U+0DBA,
  a space, U+0D9A U+0DDC U+0DC4 U+0DDC U+0DB8 U+0DAF. The phrase pass does write that
  value, but the word pass then strips each word with \<open>[^\w]\<close>, which removes the
  vowel signs and the virama, finds no dictionary entry and appends the stripped
  word: the result has lost U+0DD2, U+0DD4, U+0DCA and both U+0DDC.
\<close>

theorem process_query_ginumkaranaya_kohomada:
  "process_query py_ucd transliterator_init (ascii ''ginumkaranaya kohomada'')
     = Inr [0xD9C, 0xDAB, 0xDB8, 0xD9A, 0xDBB, 0xDAB, 0xDBA, 0x20, 0xD9A, 0xDC4, 0xDB8, 0xDAF]"
  by (simp add: norm_eval)

subsection \<open>What \<open>process_query\<close> returns\<close>

lemma is_sinhala_text_eq: "is_sinhala_text U text = Inr (is_native_script U text)"
  by (simp add: is_sinhala_text_def truediv_def is_native_script_def Let_def)

lemma translation_score_eq:
  "translation_score original translated = Inr (spec_score original translated)"
  by (simp add: translation_score_def truediv_def spec_score_def Let_def)

lemma find_partial_match_in_short:
  "length w \<le> 3 \<Longrightarrow> find_partial_match_in m w = w"
  by (induction m) auto

lemma find_partial_match_in_no_key:
  "\<not> list_ex (\<lambda>(e, s). contains w e \<or> contains e w) m \<Longrightarrow> find_partial_match_in m w = w"
proof (induction m)
  case Nil
  show ?case by simp
next
  case (Cons p m)
  obtain e s where p: "p = (e, s)" by (cases p)
  from Cons.prems p have a: "\<not> contains w e" "\<not> contains e w"
    and b: "\<not> list_ex (\<lambda>(e, s). contains w e \<or> contains e w) m"
    by simp_all
  from Cons.IH [OF b] a p show ?case by simp
qed

lemma find_partial_match_in_unmatched:
  "\<not> (length w > 3 \<and> list_ex (\<lambda>(e, s). contains w e \<or> contains e w) m)
     \<Longrightarrow> find_partial_match_in m w = w"
  using find_partial_match_in_short [of w m] find_partial_match_in_no_key [of w m]
  by fastforce

lemma process_query_eq:
  "process_query U self query =
     Inr (if query = [] \<or> is_native_script U query then query
          else if spec_score query (candidate U self query) > 3 / 10
               then candidate U self query else query)"
  by (simp add: process_query_def is_sinhala_text_eq translation_score_eq Let_def
      split: bool.split)

text \<open>
  C4. For a query that is not empty and not native script, \<open>process_query\<close> returns the
  candidate (the result of the phrase pass and the word pass) when its score is above
  0.3, and the query itself when the score is at most 0.3; the score is the share of
  Sinhala characters in the candidate, and 0 when the candidate is the query.
\<close>

theorem process_query_accepts_iff_score:
  assumes "query \<noteq> []" and "\<not> is_native_script U query"
  shows "process_query U self query =
     Inr (if spec_score query (candidate U self query) > 3 / 10
          then candidate U self query else query)"
  using assms by (simp add: process_query_eq)

theorem process_query_accepts_iff_score_witness:
  "ascii ''cash flow'' \<noteq> [] \<and> \<not> is_native_script py_ucd (ascii ''cash flow'') \<and>
   process_query py_ucd transliterator_init (ascii ''cash flow'')
     = Inr [0xDB8, 0xDD4, 0xDAF, 0xDBD, 0xDCA, 0x20, 0xDB4, 0xDCA, 0x200D, 0xDBB, 0xDC0, 0xDCF, 0xDC4]"
proof -
  have h1: "ascii ''cash flow'' \<noteq> []" by (simp add: ascii_def)
  have h2: "\<not> is_native_script py_ucd (ascii ''cash flow'')"
    by (simp add: is_native_script_def ascii_def py_ucd_def py_isword_def in_sinhala_def)
  have c: "candidate py_ucd transliterator_init (ascii ''cash flow'')
     = [0xDB8, 0xDD4, 0xDAF, 0xDBD, 0xDCA, 0x20, 0xDB4, 0xDCA, 0x200D, 0xDBB, 0xDC0, 0xDCF, 0xDC4]"
    by (simp add: norm_eval)
  have s: "spec_score (ascii ''cash flow'')
     [0xDB8, 0xDD4, 0xDAF, 0xDBD, 0xDCA, 0x20, 0xDB4, 0xDCA, 0x200D, 0xDBB, 0xDC0, 0xDCF, 0xDC4]
       > 3 / 10"
    by (simp add: spec_score_def ascii_def in_sinhala_def)
  from process_query_accepts_iff_score [OF h1 h2, of transliterator_init] c s h1 h2
  show ?thesis by simp
qed

text \<open>
  C6. \<open>process_query\<close> returns the query as it is when the query is empty and when it
  is native script, that is when it has a word character and its Sinhala characters
  are more than half as many as its word characters.
\<close>

theorem process_query_keeps_empty_and_native:
  assumes "query = [] \<or> is_native_script U query"
  shows "process_query U self query = Inr query"
  using assms by (simp add: process_query_eq)

theorem process_query_keeps_empty_and_native_witness:
  "is_native_script py_ucd
     [0xD9C, 0xDD2, 0xDAB, 0xDD4, 0xDB8, 0xDCA, 0xD9A, 0xDBB, 0xDAB, 0xDBA, 0x20,
      0xD9A, 0xDDC, 0xDC4, 0xDDC, 0xDB8, 0xDAF] \<and>
   process_query py_ucd transliterator_init
     [0xD9C, 0xDD2, 0xDAB, 0xDD4, 0xDB8, 0xDCA, 0xD9A, 0xDBB, 0xDAB, 0xDBA, 0x20,
      0xD9A, 0xDDC, 0xDC4, 0xDDC, 0xDB8, 0xDAF]
   = Inr [0xD9C, 0xDD2, 0xDAB, 0xDD4, 0xDB8, 0xDCA, 0xD9A, 0xDBB, 0xDAB, 0xDBA, 0x20,
      0xD9A, 0xDDC, 0xDC4, 0xDDC, 0xDB8, 0xDAF] \<and>
   process_query py_ucd transliterator_init [] = Inr []"
proof -
  have h: "is_native_script py_ucd
     [0xD9C, 0xDD2, 0xDAB, 0xDD4, 0xDB8, 0xDCA, 0xD9A, 0xDBB, 0xDAB, 0xDBA, 0x20,
      0xD9A, 0xDDC, 0xDC4, 0xDDC, 0xDB8, 0xDAF]"
    by (simp add: is_native_script_def py_ucd_def py_isword_def in_sinhala_def)
  from h process_query_keeps_empty_and_native [of _ py_ucd transliterator_init]
  show ?thesis by simp
qed

subsection \<open>The loops return and the division does not fail\<close>

lemma match_digits_positive: "match_digits dg pre post s = Some n \<Longrightarrow> 0 < n"
  by (auto simp add: match_digits_def Let_def split: if_splits)

lemma sub_digits_scan_eq:
  "sub_digits_scan dg pre post repl s = Some (sub_digits dg pre post repl s)"
proof (induction dg pre post repl s rule: sub_digits.induct)
  case (1 dg pre post repl)
  show ?case by (subst sub_digits_scan.simps) simp
next
  case (2 dg pre post repl c cs)
  show ?case
  proof (cases "match_digits dg pre post (c # cs)")
    case None
    with 2 show ?thesis by (subst sub_digits_scan.simps) simp
  next
    case (Some n)
    from match_digits_positive [OF Some] have "drop n (c # cs) = drop (n - 1) cs"
      by (simp add: drop_Cons')
    with Some 2 show ?thesis by (subst sub_digits_scan.simps) simp
  qed
qed

lemma replace_scan_eq:
  "old \<noteq> [] \<Longrightarrow> replace_scan old new s = Some (replace_from old new s)"
proof (induction old new s rule: replace_from.induct)
  case (1 old new)
  show ?case by (subst replace_scan.simps) simp
next
  case (2 old new c cs)
  from \<open>old \<noteq> []\<close> have d: "drop (length old) (c # cs) = drop (length old - 1) cs"
    by (simp add: drop_Cons')
  show ?case
  proof (cases "prefix old (c # cs)")
    case True
    with 2 d show ?thesis by (subst replace_scan.simps) simp
  next
    case False
    with 2 show ?thesis by (subst replace_scan.simps) simp
  qed
qed

lemma replace_checked_eq: "replace_checked old new s = Some (replace old new s)"
  by (simp add: replace_checked_def replace_def replace_scan_eq)

lemma replace_each_eq:
  "replace_each m s = Some (foldl (\<lambda>t (old, new). replace old new t) s m)"
  by (induction m s rule: replace_each.induct) (simp_all add: replace_checked_eq)

lemma clean_text_checked_eq: "clean_text_checked U text = Some (clean_text U text)"
  by (simp add: clean_text_checked_def clean_text_def replace_each_eq sub_digits_scan_eq Let_def)

lemma overlap_seed_checked_eq:
  "overlap_seed_checked U self cur = Inr (overlap_seed U self cur)"
  by (simp add: overlap_seed_checked_def overlap_seed_def floordiv_def Let_def)

lemma chunk_step_checked_eq:
  "chunk_step_checked U self st sentence = Inr (chunk_step U self st sentence)"
  by (simp add: chunk_step_checked_def chunk_step_def overlap_seed_checked_eq Let_def)

lemma chunk_loop_checked_eq:
  "chunk_loop_checked U self st sentences = Inr (foldl (chunk_step U self) st sentences)"
  by (induction sentences arbitrary: st) (simp_all add: chunk_step_checked_eq)

lemma create_chunks_checked_eq:
  "create_chunks_checked U self text = Inr (create_chunks U self text)"
  by (simp add: create_chunks_checked_def create_chunks_def packed_def chunk_loop_checked_eq
      Let_def)

text \<open>
  C9. No input makes the three core functions fail, the empty string and malformed
  text included. The divisions are the only operations that can raise, and they are
  modelled with \<open>ZeroDivisionError\<close> as a value: \<open>is_sinhala_text\<close>,
  \<open>translation_score\<close> and \<open>process_query\<close> never return it, since each guard keeps
  the denominator away from 0, and neither does \<open>create_chunks\<close>, which divides by the
  constant 10. The scans of \<open>clean_text\<close> always return, since no match of its patterns
  is empty; with their loops and failures written out, \<open>clean_text\<close> and
  \<open>create_chunks\<close> return what the functions above return.
\<close>

theorem core_functions_total:
  "(\<exists>r. process_query U self query = Inr r) \<and>
   (\<exists>b. is_sinhala_text U query = Inr b) \<and>
   (\<exists>s. translation_score query result = Inr s) \<and>
   clean_text_checked U text = Some (clean_text U text) \<and>
   create_chunks_checked U dp text = Inr (create_chunks U dp text)"
  by (simp add: process_query_eq is_sinhala_text_eq translation_score_eq
      clean_text_checked_eq create_chunks_checked_eq)

text \<open>
  C7. The claim: in the word pass, a token with no exact match and no qualifying
  partial match is replaced by the token stripped of its non-word characters, also
  when the token is punctuation only. The code appends the stripped token only when
  it is not empty (\<open>translated if translated else word\<close>): a token of punctuation only
  is appended as it is, here \<open>??\<close>.
\<close>

theorem translate_word_keeps_punctuation_token:
  "map_of (transliteration_map transliterator_init) (clean_word_of py_ucd (ascii ''??'')) = None \<and>
   \<not> qualifying_partial_match transliterator_init (clean_word_of py_ucd (ascii ''??'')) \<and>
   clean_word_of py_ucd (ascii ''??'') = [] \<and>
   translate_word py_ucd transliterator_init (ascii ''??'') = ascii ''??''"
  by (simp add: norm_eval qualifying_partial_match_def)

text \<open>
  C7, as amended. A token with no exact match and no qualifying partial match (both
  looked up with the stripped token) is replaced by the stripped token when that is
  not empty, and is kept as it is, punctuation included, when nothing is left of it.
\<close>

theorem translate_word_unmatched:
  assumes "map_of (transliteration_map self) (clean_word_of U word) = None"
      and "\<not> qualifying_partial_match self (clean_word_of U word)"
  shows "translate_word U self word =
     (if clean_word_of U word \<noteq> [] then clean_word_of U word else word)"
  using assms find_partial_match_in_unmatched [of "clean_word_of U word" "transliteration_map self"]
  by (simp add: translate_word_def find_partial_match_def qualifying_partial_match_def Let_def)

theorem translate_word_unmatched_witness:
  "map_of (transliteration_map transliterator_init) (clean_word_of py_ucd (ascii ''hello,'')) = None \<and>
   \<not> qualifying_partial_match transliterator_init (clean_word_of py_ucd (ascii ''hello,'')) \<and>
   translate_word py_ucd transliterator_init (ascii ''hello,'') = ascii ''hello''"
proof -
  have cw: "clean_word_of py_ucd (ascii ''hello,'') = ascii ''hello''"
    by (simp add: clean_word_of_def py_ucd_def py_isword_def ascii_def)
  have h1: "map_of (transliteration_map transliterator_init)
      (clean_word_of py_ucd (ascii ''hello,'')) = None"
    unfolding cw
    by (simp add: transliterator_init_def transliteration_map_init_def ascii_def)
  have h2: "\<not> qualifying_partial_match transliterator_init
      (clean_word_of py_ucd (ascii ''hello,''))"
    unfolding cw
    by (simp add: qualifying_partial_match_def transliterator_init_def
        transliteration_map_init_def ascii_def)
  have ne: "ascii ''hello'' \<noteq> []" by (simp add: ascii_def)
  from translate_word_unmatched [OF h1 h2] cw ne h1 h2 show ?thesis by simp
qed

subsection \<open>The characters of the candidate\<close>

text \<open>
  Every character of the candidate is a character of the lower-cased query, a space,
  or a character of a value of one of the two dictionaries: the phrase pass, the split,
  the word pass and the join add nothing else.
\<close>

lemma set_replace_from: "set (replace_from old new s) \<subseteq> set s \<union> set new"
proof (induction old new s rule: replace_from.induct)
  case (1 old new)
  show ?case by simp
next
  case (2 old new c cs)
  have "set (drop (length old - 1) cs) \<subseteq> set cs" by (rule set_drop_subset)
  with 2 show ?case by auto
qed

lemma set_replace: "set (replace old new s) \<subseteq> set s \<union> set new"
  using set_replace_from [of old new s] by (auto simp add: replace_def)

lemma set_phrase_fold:
  "set (foldl (\<lambda>q (eng_phrase, sin_phrase).
          if contains eng_phrase q then replace eng_phrase sin_phrase q else q) q m)
     \<subseteq> set q \<union> values_of m"
proof (induction m arbitrary: q)
  case Nil
  show ?case by simp
next
  case (Cons p m)
  obtain e s where p: "p = (e, s)" by (cases p)
  let ?q = "if contains e q then replace e s q else q"
  have "set ?q \<subseteq> set q \<union> set s" using set_replace [of e s q] by auto
  moreover have "values_of (p # m) = set s \<union> values_of m"
    by (simp add: values_of_def p)
  ultimately show ?case using Cons.IH [of ?q] p by auto
qed

lemma split_run_chars: "w \<in> set (split_run sp cur s) \<Longrightarrow> set w \<subseteq> set cur \<union> set s"
proof (induction s arbitrary: cur)
  case Nil
  then show ?case by (auto split: if_splits)
next
  case (Cons a s)
  show ?case
  proof (cases "sp a")
    case True
    with Cons.prems have "w = rev cur \<or> w \<in> set (split_run sp [] s)"
      by (auto split: if_splits)
    then show ?thesis using Cons.IH [of "[]"] by auto
  next
    case False
    with Cons.prems have "w \<in> set (split_run sp (a # cur) s)" by simp
    from Cons.IH [OF this] show ?thesis by auto
  qed
qed

lemma find_partial_match_in_result:
  "find_partial_match_in m w = w \<or> set (find_partial_match_in m w) \<subseteq> values_of m"
proof (induction m)
  case Nil
  show ?case by simp
next
  case (Cons p m)
  obtain e s where p: "p = (e, s)" by (cases p)
  have "values_of (p # m) = set s \<union> values_of m" by (simp add: values_of_def p)
  with Cons p show ?case by auto
qed

lemma map_of_values: "map_of m k = Some v \<Longrightarrow> set v \<subseteq> values_of m"
  by (auto simp add: values_of_def dest: map_of_SomeD intro: rev_image_eqI)

lemma translate_word_chars:
  "set (translate_word U self w) \<subseteq> set w \<union> values_of (transliteration_map self)"
proof (cases "map_of (transliteration_map self) (clean_word_of U w)")
  case (Some v)
  then show ?thesis using map_of_values [OF Some] by (simp add: translate_word_def le_supI2)
next
  case None
  have "set (clean_word_of U w) \<subseteq> set w" by (simp add: clean_word_of_def)
  with None find_partial_match_in_result [of "transliteration_map self" "clean_word_of U w"]
  show ?thesis by (auto simp add: translate_word_def find_partial_match_def Let_def)
qed

lemma set_join: "set (join sep xs) \<subseteq> set sep \<union> (\<Union>x \<in> set xs. set x)"
  by (induction sep xs rule: join.induct) auto

lemma candidate_chars:
  "set (candidate U self query) \<subseteq>
     set (lower U query) \<union> {0x20} \<union> values_of (phrase_map self)
       \<union> values_of (transliteration_map self)"
proof
  fix c assume "c \<in> set (candidate U self query)"
  then have "c \<in> set [0x20] \<union> (\<Union>x \<in> set (map (translate_word U self)
       (split_ws U (phrase_pass self (lower U query)))). set x)"
    using set_join by (fastforce simp add: candidate_def Let_def)
  then consider "c = 0x20"
    | w where "w \<in> set (split_ws U (phrase_pass self (lower U query)))"
        "c \<in> set (translate_word U self w)"
    by auto
  then show "c \<in> set (lower U query) \<union> {0x20} \<union> values_of (phrase_map self)
       \<union> values_of (transliteration_map self)"
  proof cases
    case 1
    then show ?thesis by simp
  next
    case 2
    from 2(2) translate_word_chars have "c \<in> set w \<union> values_of (transliteration_map self)"
      by blast
    moreover have "set w \<subseteq> set (phrase_pass self (lower U query))"
      using split_run_chars [of w "isspace U" "[]"] 2(1) by (simp add: split_ws_def)
    moreover have "set (phrase_pass self (lower U query))
        \<subseteq> set (lower U query) \<union> values_of (phrase_map self)"
      unfolding phrase_pass_def by (rule set_phrase_fold)
    ultimately show ?thesis by blast
  qed
qed

lemma builtin_values_no_upper:
  "\<forall>c \<in> values_of (transliteration_map transliterator_init)
        \<union> values_of (phrase_map transliterator_init). \<not> ascii_upper c"
  by (simp add: values_of_def transliterator_init_def transliteration_map_init_def
      phrase_map_init_def ascii_upper_def)

text \<open>
  C10. With the built-in dictionaries, a result of \<open>process_query\<close> that differs from
  the query has no upper-case ASCII letter. The hypothesis on the runtime's table is
  that \<open>str.lower\<close> returns no upper-case ASCII letter.
\<close>

theorem process_query_result_has_no_upper_case:
  assumes "\<forall>s. \<forall>c \<in> set (lower U s). \<not> ascii_upper c"
      and "process_query U transliterator_init query = Inr r"
      and "r \<noteq> query"
  shows "\<forall>c \<in> set r. \<not> ascii_upper c"
proof -
  from assms(2,3) have r: "r = candidate U transliterator_init query"
    by (simp add: process_query_eq split: if_splits)
  have "\<not> ascii_upper 0x20" by (simp add: ascii_upper_def)
  with candidate_chars [of U transliterator_init query] assms(1) builtin_values_no_upper
  show ?thesis unfolding r by blast
qed

theorem process_query_result_has_no_upper_case_witness:
  "process_query py_ucd transliterator_init (ascii ''Profit'') = Inr [0xDBD, 0xDCF, 0xDB7] \<and>
   [0xDBD, 0xDCF, 0xDB7] \<noteq> ascii ''Profit'' \<and>
   \<not> ascii_upper 0xDBD \<and> \<not> ascii_upper 0xDCF \<and> \<not> ascii_upper 0xDB7"
proof -
  have l: "\<forall>s. \<forall>c \<in> set (lower py_ucd s). \<not> ascii_upper c"
    by (auto simp add: py_ucd_def py_lower_char_def ascii_upper_def)
  have e: "process_query py_ucd transliterator_init (ascii ''Profit'') = Inr [0xDBD, 0xDCF, 0xDB7]"
    by (simp add: norm_eval)
  have n: "[0xDBD, 0xDCF, 0xDB7] \<noteq> ascii ''Profit''" by (simp add: ascii_def)
  from process_query_result_has_no_upper_case [OF l e n] e n show ?thesis by simp
qed

end
